theory Spec2Isabelle
  imports Main "HOL-Library.Multiset"
begin

section \<open>Strings, thrown values and completions\<close>

text \<open>
  A JavaScript string is modelled as a \<open>string\<close>. Text outside ASCII is carried as its
  UTF-8 bytes: the three marks that \<open>validateSecret\<close> prints are the byte sequences
  below (U+274C, U+2705, and U+26A0 followed by the variation selector U+FE0F).
\<close>

definition cross_mark :: string where
  "cross_mark = [CHR 0xE2, CHR 0x9D, CHR 0x8C]"

definition check_mark :: string where
  "check_mark = [CHR 0xE2, CHR 0x9C, CHR 0x85]"

definition warning_sign :: string where
  "warning_sign = [CHR 0xE2, CHR 0x9A, CHR 0xA0, CHR 0xEF, CHR 0xB8, CHR 0x8F]"

definition squote :: string where
  "squote = [CHR 0x27]"

definition dquote :: string where
  "dquote = [CHR 0x22]"

text \<open>
  What a \<open>throw\<close> carries: an \<open>Error\<close> object with its \<open>message\<close>, or a primitive
  that is not an \<open>Error\<close>, given by its \<open>String(e)\<close> rendering.
\<close>

datatype thrown = ErrorObj string | Primitive string

text \<open>A call either returns a value or throws.\<close>

datatype 'a completion = Returns 'a | Throws thrown

text \<open>\<open>e instanceof Error ? e.message : String(e)\<close>\<close>

fun describe_thrown :: "thrown \<Rightarrow> string" where
  "describe_thrown (ErrorObj message) = message"
| "describe_thrown (Primitive s) = s"

section \<open>The host's regular expressions\<close>

text \<open>
  \<open>new RegExp(pattern)\<close> and \<open>regex.test(value)\<close> belong to the host language, so the
  engine is a parameter: \<open>compile\<close> returns the compiled expression or what the
  constructor throws, \<open>test\<close> is the search of a compiled expression in a value. With
  them comes the way in which the language prints a number, \<open>number_to_string\<close>.
\<close>

record 'r regexp_engine =
  compile :: "string \<Rightarrow> thrown + 'r"
  test :: "'r \<Rightarrow> string \<Rightarrow> bool"
  number_to_string :: "int \<Rightarrow> string"

section \<open>validateSecrets.ts: validateSecret\<close>

text \<open>
  The function returns a boolean and writes lines with \<open>console.log\<close>; the model returns
  the lines written, in order, together with the completion.
\<close>

type_synonym 'a logged = "string list \<times> 'a completion"

definition mismatch_message :: "string \<Rightarrow> string \<Rightarrow> string" where
  "mismatch_message name pattern =
     cross_mark @ '' Secret '' @ squote @ name @ squote
       @ '' does not match the required pattern: '' @ pattern"

definition valid_message :: "string \<Rightarrow> string" where
  "valid_message name = check_mark @ '' Secret '' @ squote @ name @ squote @ '' is valid.''"

definition error_message :: "string \<Rightarrow> thrown \<Rightarrow> string" where
  "error_message name e =
     warning_sign @ '' Error validating secret '' @ squote @ name @ squote @ '': ''
       @ describe_thrown e"

text \<open>The body of the \<open>try\<close> block: a failing \<open>new RegExp\<close> throws out of it.\<close>

definition validateSecret_try :: "'r regexp_engine \<Rightarrow> string \<Rightarrow> string \<Rightarrow> string \<Rightarrow> bool logged" where
  "validateSecret_try eng name value pattern =
     (case compile eng pattern of
        Inl e \<Rightarrow> ([], Throws e)
      | Inr regex \<Rightarrow>
          if \<not> test eng regex value
          then ([mismatch_message name pattern], Returns False)
          else ([valid_message name], Returns True))"

text \<open>The \<open>catch\<close> block.\<close>

definition validateSecret_catch :: "string \<Rightarrow> thrown \<Rightarrow> bool logged" where
  "validateSecret_catch name e = ([error_message name e], Returns False)"

definition validateSecret :: "'r regexp_engine \<Rightarrow> string \<Rightarrow> string \<Rightarrow> string \<Rightarrow> bool logged" where
  "validateSecret eng name value pattern =
     (case validateSecret_try eng name value pattern of
        (out, Returns b) \<Rightarrow> (out, Returns b)
      | (out, Throws e) \<Rightarrow>
          (case validateSecret_catch name e of (out', c) \<Rightarrow> (out @ out', c)))"

section \<open>validateSecrets.ts: the command-line entry\<close>

text \<open>
  The argument loop: a flag that is not the last argument takes the next argument as its
  value and skips it; anything else is passed over. The accumulator holds
  \<open>name\<close>, \<open>value\<close> and \<open>regex\<close>, each \<open>''\<close> at the start.
\<close>

fun parse_args :: "string list \<Rightarrow> string \<times> string \<times> string \<Rightarrow> string \<times> string \<times> string" where
  "parse_args [] acc = acc"
| "parse_args [a] acc = acc"
| "parse_args (a # b # rest) (name, value, regex) =
     (if a = ''--name'' then parse_args rest (b, value, regex)
      else if a = ''--value'' then parse_args rest (name, b, regex)
      else if a = ''--regex'' then parse_args rest (name, value, b)
      else parse_args (b # rest) (name, value, regex))"

definition usage_message :: string where
  "usage_message =
     ''Missing required arguments. Usage: node validateSecrets.js --name NAME --value VALUE --regex PATTERN''"

text \<open>
  What the process leaves behind: the lines on stdout and stderr, the calls of
  \<open>validateSecret\<close> it made (name, value, pattern), and the exit code.
\<close>

record cli_result =
  stdout :: "string list"
  stderr :: "string list"
  validate_calls :: "(string \<times> string \<times> string) list"
  exit_code :: nat

definition cli_main :: "'r regexp_engine \<Rightarrow> string list \<Rightarrow> cli_result" where
  "cli_main eng args =
     (case parse_args args ([], [], []) of
        (name, value, regex) \<Rightarrow>
          if name = [] \<or> value = [] \<or> regex = []
          then \<lparr>stdout = [], stderr = [usage_message], validate_calls = [], exit_code = 1\<rparr>
          else
            (case validateSecret eng name value regex of
               (out, Returns result) \<Rightarrow>
                 \<lparr>stdout = out, stderr = [], validate_calls = [(name, value, regex)],
                  exit_code = (if result then 0 else 1)\<rparr>
             | (out, Throws error) \<Rightarrow>
                 \<lparr>stdout = out, stderr = [''Unexpected error: '' @ describe_thrown error],
                  validate_calls = [(name, value, regex)], exit_code = 1\<rparr>))"

section \<open>Values of a parsed configuration\<close>

text \<open>
  \<open>TOML.parse\<close> returns a JavaScript value built from strings, numbers, booleans,
  arrays and tables. \<open>TInt n\<close> is the number that the parser makes of the integer \<open>n\<close>
  written in the file; floats and dates are left out. A table lists its entries in the
  order in which JavaScript enumerates them. The parser builds its tables without a
  prototype, so a table has no members but its entries and no conversion to a string.
\<close>

datatype toml = TStr string | TInt int | TBool bool | TArr "toml list" | TTable "(string \<times> toml) list"

text \<open>Truthiness, as \<open>!x\<close> tests it.\<close>

fun truthy :: "toml \<Rightarrow> bool" where
  "truthy (TStr s) = (s \<noteq> [])"
| "truthy (TInt n) = (n \<noteq> 0)"
| "truthy (TBool b) = b"
| "truthy (TArr xs) = True"
| "truthy (TTable kvs) = True"

text \<open>
  \<open>secretsConfig.secrets\<close>: the entry of a table, and \<open>undefined\<close> (here \<open>None\<close>) on a
  table without it and on every other value.
\<close>

fun get_secrets :: "toml \<Rightarrow> toml option" where
  "get_secrets (TTable kvs) = map_of kvs ''secrets''"
| "get_secrets v = None"

text \<open>Decimal digits of a number.\<close>

fun show_nat :: "nat \<Rightarrow> string" where
  "show_nat n =
     (if n < 10 then [char_of (48 + n)] else show_nat (n div 10) @ [char_of (48 + n mod 10)])"

declare show_nat.simps [simp del]

definition show_int :: "int \<Rightarrow> string" where
  "show_int i = (if i < 0 then ''-'' @ show_nat (nat (- i)) else show_nat (nat i))"

fun join :: "string \<Rightarrow> string list \<Rightarrow> string" where
  "join sep [] = []"
| "join sep [x] = x"
| "join sep (x # y # ys) = x @ sep @ join sep (y # ys)"

text \<open>The strings of a list of conversions, or what the first failing one throws.\<close>

fun collect :: "(thrown + string) list \<Rightarrow> thrown + string list" where
  "collect [] = Inr []"
| "collect (Inl e # rs) = Inl e"
| "collect (Inr s # rs) = (case collect rs of Inl e \<Rightarrow> Inl e | Inr ss \<Rightarrow> Inr (s # ss))"

text \<open>
  The string conversion that \<open>new RegExp(regex)\<close> and the template literals apply to a
  value. A JavaScript number is a double, and how it prints is the engine's
  \<open>number_to_string\<close> (the decimal digits, for an integer of at most 2^53 in absolute
  value). An array prints its elements with commas between them. A table has no
  prototype, so its conversion throws a \<open>TypeError\<close>, and so does the conversion of an
  array that holds one.
\<close>

fun to_js_string :: "(int \<Rightarrow> string) \<Rightarrow> toml \<Rightarrow> thrown + string" where
  "to_js_string print_number (TStr s) = Inr s"
| "to_js_string print_number (TInt n) = Inr (print_number n)"
| "to_js_string print_number (TBool b) = Inr (if b then ''true'' else ''false'')"
| "to_js_string print_number (TArr xs) =
     (case collect (map (to_js_string print_number) xs) of
        Inl e \<Rightarrow> Inl e
      | Inr ss \<Rightarrow> Inr (join '','' ss))"
| "to_js_string print_number (TTable kvs) =
     Inl (ErrorObj ''Cannot convert object to primitive value'')"

text \<open>
  The UTF-16 code units of a string, each as a string of its own. A character of one,
  two or three bytes is one unit. A character of four bytes is a pair of surrogates, and
  a surrogate alone is carried as the three bytes that the same scheme gives its number.
  A byte that starts no character is taken alone.
\<close>

definition three_bytes :: "nat \<Rightarrow> string" where
  "three_bytes u =
     [char_of (224 + u div 4096), char_of (128 + (u div 64) mod 64), char_of (128 + u mod 64)]"

definition surrogates :: "char \<Rightarrow> char \<Rightarrow> char \<Rightarrow> char \<Rightarrow> string list" where
  "surrogates a b c d =
     (let point = (of_char a mod 8) * 262144 + (of_char b mod 64) * 4096
                  + (of_char c mod 64) * 64 + (of_char d mod 64 :: nat);
          offset = point - 65536
      in [three_bytes (55296 + offset div 1024), three_bytes (56320 + offset mod 1024)])"

fun utf16_units :: "string \<Rightarrow> string list" where
  "utf16_units [] = []"
| "utf16_units (a # rest) =
     (let n = (of_char a :: nat)
      in if 240 \<le> n \<and> n < 248 \<and> 3 \<le> length rest
         then surrogates a (rest ! 0) (rest ! 1) (rest ! 2) @ utf16_units (drop 3 rest)
         else if 224 \<le> n \<and> n < 240 \<and> 2 \<le> length rest
         then (a # take 2 rest) # utf16_units (drop 2 rest)
         else if 192 \<le> n \<and> n < 224 \<and> 1 \<le> length rest
         then (a # take 1 rest) # utf16_units (drop 1 rest)
         else [a] # utf16_units rest)"

declare utf16_units.simps [simp del]

text \<open>
  \<open>Object.entries\<close>: the entries of a table, the indexed elements of an array, the
  indexed code units of a string, and nothing for a number or a boolean.
\<close>

fun object_entries :: "toml \<Rightarrow> (string \<times> toml) list" where
  "object_entries (TTable kvs) = kvs"
| "object_entries (TArr xs) = zip (map show_nat [0..<length xs]) xs"
| "object_entries (TStr s) =
     zip (map show_nat [0..<length (utf16_units s)]) (map TStr (utf16_units s))"
| "object_entries (TInt n) = []"
| "object_entries (TBool b) = []"

section \<open>String.prototype.trim\<close>

text \<open>
  The white space and line terminators of JavaScript, each as its UTF-8 bytes: U+0009 to
  U+000D, U+0020, U+00A0, U+1680, U+2000 to U+200A, U+2028, U+2029, U+202F, U+205F,
  U+3000 and U+FEFF.
\<close>

definition white_space :: "string list" where
  "white_space =
     [[CHR 0x09], [CHR 0x0A], [CHR 0x0B], [CHR 0x0C], [CHR 0x0D], [CHR 0x20],
      [CHR 0xC2, CHR 0xA0], [CHR 0xE1, CHR 0x9A, CHR 0x80],
      [CHR 0xE2, CHR 0x80, CHR 0x80], [CHR 0xE2, CHR 0x80, CHR 0x81],
      [CHR 0xE2, CHR 0x80, CHR 0x82], [CHR 0xE2, CHR 0x80, CHR 0x83],
      [CHR 0xE2, CHR 0x80, CHR 0x84], [CHR 0xE2, CHR 0x80, CHR 0x85],
      [CHR 0xE2, CHR 0x80, CHR 0x86], [CHR 0xE2, CHR 0x80, CHR 0x87],
      [CHR 0xE2, CHR 0x80, CHR 0x88], [CHR 0xE2, CHR 0x80, CHR 0x89],
      [CHR 0xE2, CHR 0x80, CHR 0x8A], [CHR 0xE2, CHR 0x80, CHR 0xA8],
      [CHR 0xE2, CHR 0x80, CHR 0xA9], [CHR 0xE2, CHR 0x80, CHR 0xAF],
      [CHR 0xE2, CHR 0x81, CHR 0x9F], [CHR 0xE3, CHR 0x80, CHR 0x80],
      [CHR 0xEF, CHR 0xBB, CHR 0xBF]]"

text \<open>Remove from the front of \<open>s\<close> every leading occurrence of a sequence of \<open>ws\<close>.\<close>

function strip_leading :: "string list \<Rightarrow> string \<Rightarrow> string" where
  "strip_leading ws s =
     (case find (\<lambda>w. w \<noteq> [] \<and> take (length w) s = w) ws of
        None \<Rightarrow> s
      | Some w \<Rightarrow> strip_leading ws (drop (length w) s))"
  by pat_completeness auto

lemma take_eq_length_le: "take (length w) s = w \<Longrightarrow> length w \<le> length s"
proof -
  assume "take (length w) s = w"
  then have "length (take (length w) s) = length w" by simp
  then show ?thesis by simp
qed

termination strip_leading
proof (relation "measure (\<lambda>(ws, s). length s)")
  show "wf (measure (\<lambda>(ws, s). length s))" by simp
next
  fix ws :: "string list" and s w :: string
  assume "find (\<lambda>w. w \<noteq> [] \<and> take (length w) s = w) ws = Some w"
  then have "w \<noteq> []" and "take (length w) s = w"
    by (auto simp: find_Some_iff)
  then have "0 < length w" and "length w \<le> length s"
    using take_eq_length_le [of w s] by simp_all
  then have "length s - length w < length s"
    by arith
  then have "length (drop (length w) s) < length s"
    by simp
  then show "((ws, drop (length w) s), (ws, s)) \<in> measure (\<lambda>(ws, s). length s)"
    by simp
qed

declare strip_leading.simps [simp del]

definition trim :: "string \<Rightarrow> string" where
  "trim s = rev (strip_leading (map rev white_space) (rev (strip_leading white_space s)))"

section \<open>index.ts: run\<close>

text \<open>
  What \<open>process.env[name]\<close> evaluates to, when it is not \<open>undefined\<close>: the string of a
  variable, or a member that the \<open>process.env\<close> object inherits from \<open>Object.prototype\<close>
  (\<open>toString\<close>, \<open>constructor\<close> and the like), which is a function or an object and is
  given by its conversion to a string.
\<close>

datatype env_value = EnvString string | EnvObject string

text \<open>Truthiness, as \<open>!secretValue\<close> tests it: a function or an object is truthy.\<close>

fun env_truthy :: "env_value \<Rightarrow> bool" where
  "env_truthy (EnvString s) = (s \<noteq> [])"
| "env_truthy (EnvObject s) = True"

text \<open>The string that \<open>regex.test\<close> makes of its argument.\<close>

fun env_text :: "env_value \<Rightarrow> string" where
  "env_text (EnvString s) = s"
| "env_text (EnvObject s) = s"

text \<open>
  The collaborators of \<open>run\<close>: \<open>core.getInput\<close> with \<open>required: true\<close> (which throws on
  a missing input), \<open>path.resolve\<close> against the working directory, \<open>existsSync\<close>,
  \<open>readFile\<close>, \<open>TOML.parse\<close> and the lookup \<open>process.env[name]\<close>, where \<open>None\<close> is
  \<open>undefined\<close>.
\<close>

record host =
  get_input :: "string \<Rightarrow> thrown + string"
  resolve_path :: "string \<Rightarrow> string"
  exists_sync :: "string \<Rightarrow> bool"
  read_file :: "string \<Rightarrow> thrown + string"
  toml_parse :: "string \<Rightarrow> thrown + toml"
  process_env :: "string \<Rightarrow> env_value option"

text \<open>
  What \<open>run\<close> does to the outside, in order: the calls of \<open>core.debug\<close>, \<open>core.info\<close>,
  \<open>core.warning\<close>, \<open>core.error\<close> and \<open>core.setFailed\<close>, and the calls of
  \<open>validateSecret\<close> (name, value, pattern; the value and the pattern as the strings that
  \<open>validateSecret\<close> makes of them).
\<close>

datatype event =
    CoreDebug string
  | CoreInfo string
  | CoreWarning string
  | CoreError string
  | CoreSetFailed string
  | CallValidateSecret string string string

definition not_found_warning :: "string \<Rightarrow> string" where
  "not_found_warning name = ''Secret '' @ dquote @ name @ dquote @ '' not found in environment.''"

definition validation_failed_error :: "string \<Rightarrow> string" where
  "validation_failed_error name = ''Validation failed for secret: '' @ name"

definition validating_debug :: "string \<Rightarrow> string \<Rightarrow> string" where
  "validating_debug name regex = ''Validating secret: '' @ name @ '' with pattern: '' @ regex"

text \<open>
  The body of the \<open>for\<close> loop, for one entry, as a change of \<open>hasFailures\<close>. The
  template literal of the debug line is the first to convert \<open>regex\<close> to a string; when
  that throws, the inner \<open>catch\<close> reports the rule as failed. While \<open>validateSecret\<close>
  runs, \<open>console.log\<close> appends each message and a line feed to \<open>validationOutput\<close>.
\<close>

definition process_rule :: "'r regexp_engine \<Rightarrow> host \<Rightarrow> string \<times> toml \<Rightarrow> bool \<Rightarrow> event list \<times> bool" where
  "process_rule eng h rule hasFailures =
     (case rule of (name, regex) \<Rightarrow>
        (case process_env h name of
           None \<Rightarrow> ([CoreWarning (not_found_warning name)], True)
         | Some secretValue \<Rightarrow>
             if \<not> env_truthy secretValue then ([CoreWarning (not_found_warning name)], True)
             else
               (case to_js_string (number_to_string eng) regex of
                  Inl error \<Rightarrow> ([CoreError (validation_failed_error name)], True)
                | Inr pattern \<Rightarrow>
                    (case validateSecret eng name (env_text secretValue) pattern of
                       (out, Returns isValid) \<Rightarrow>
                         (let validationOutput = concat (map (\<lambda>message. message @ [CHR 0x0A]) out)
                          in ([CoreDebug (validating_debug name pattern),
                               CallValidateSecret name (env_text secretValue) pattern]
                              @ (if validationOutput \<noteq> [] then [CoreInfo (trim validationOutput)]
                                 else [])
                              @ (if \<not> isValid then [CoreError (validation_failed_error name)]
                                 else []),
                              if \<not> isValid then True else hasFailures))
                     | (out, Throws error) \<Rightarrow>
                         ([CoreDebug (validating_debug name pattern),
                           CallValidateSecret name (env_text secretValue) pattern,
                           CoreError (validation_failed_error name)], True)))))"

fun run_rules :: "'r regexp_engine \<Rightarrow> host \<Rightarrow> (string \<times> toml) list \<Rightarrow> bool \<Rightarrow> event list \<times> bool" where
  "run_rules eng h [] hasFailures = ([], hasFailures)"
| "run_rules eng h (rule # rules) hasFailures =
     (case process_rule eng h rule hasFailures of
        (evs, hasFailures') \<Rightarrow>
          (case run_rules eng h rules hasFailures' of
             (evs', hasFailures'') \<Rightarrow> (evs @ evs', hasFailures'')))"

text \<open>\<open>!secretsConfig || !secretsConfig.secrets\<close>\<close>

definition missing_secrets_section :: "toml \<Rightarrow> bool" where
  "missing_secrets_section secretsConfig =
     (\<not> truthy secretsConfig \<or>
      (case get_secrets secretsConfig of None \<Rightarrow> True | Some secrets \<Rightarrow> \<not> truthy secrets))"

text \<open>The part of \<open>run\<close> after the check of the configuration, on \<open>secretsConfig.secrets\<close>.\<close>

definition validate_all :: "'r regexp_engine \<Rightarrow> host \<Rightarrow> toml \<Rightarrow> event list" where
  "validate_all eng h secrets =
     (case run_rules eng h (object_entries secrets) False of
        (evs, hasFailures) \<Rightarrow>
          [CoreInfo (''Found '' @ show_nat (length (object_entries secrets)) @ '' secrets to validate'')]
          @ evs
          @ (if hasFailures then [CoreSetFailed ''One or more secrets failed validation'']
             else [CoreInfo ''All secrets validated successfully'']))"

definition invalid_format_message :: string where
  "invalid_format_message =
     ''Invalid configuration file format. Missing '' @ dquote @ ''secrets'' @ dquote @ '' section.''"

text \<open>
  The body of the outer \<open>try\<close>. \<open>Object.keys(undefined)\<close> throws a \<open>TypeError\<close>; the check
  before it keeps \<open>run\<close> from getting there.
\<close>

definition run_try :: "'r regexp_engine \<Rightarrow> host \<Rightarrow> event list \<times> unit completion" where
  "run_try eng h =
     (case get_input h ''config-file'' of
        Inl e \<Rightarrow> ([], Throws e)
      | Inr configFilePath \<Rightarrow>
          (let tomlFilePath = resolve_path h configFilePath;
               looking = [CoreDebug (''Looking for TOML configuration at: '' @ tomlFilePath)]
           in if \<not> exists_sync h tomlFilePath
              then (looking @ [CoreSetFailed (''TOML file not found at path: '' @ tomlFilePath)],
                    Returns ())
              else
                (case read_file h tomlFilePath of
                   Inl e \<Rightarrow> (looking, Throws e)
                 | Inr tomlContent \<Rightarrow>
                     (case toml_parse h tomlContent of
                        Inl e \<Rightarrow> (looking, Throws e)
                      | Inr secretsConfig \<Rightarrow>
                          if missing_secrets_section secretsConfig
                          then (looking @ [CoreSetFailed invalid_format_message], Returns ())
                          else
                            (case get_secrets secretsConfig of
                               None \<Rightarrow>
                                 (looking,
                                  Throws (ErrorObj ''Cannot convert undefined or null to object''))
                             | Some secrets \<Rightarrow>
                                 (looking @ validate_all eng h secrets, Returns ()))))))"

text \<open>\<open>(error as Error).message\<close>, which is \<open>undefined\<close> on a primitive.\<close>

fun message_property :: "thrown \<Rightarrow> string" where
  "message_property (ErrorObj message) = message"
| "message_property (Primitive s) = ''undefined''"

definition run :: "'r regexp_engine \<Rightarrow> host \<Rightarrow> event list" where
  "run eng h =
     (case run_try eng h of
        (evs, Returns u) \<Rightarrow> evs
      | (evs, Throws error) \<Rightarrow>
          evs @ [CoreSetFailed (''Secret validation failed: '' @ message_property error)])"

section \<open>A small engine and host for running the definitions\<close>

text \<open>
  On a pattern made of letters, digits and underscores only, the host's engine searches
  the value for the pattern as it stands. \<open>literal_engine\<close> knows these patterns and
  rejects every other one. It prints a number as its decimal digits.
\<close>

definition is_word_char :: "char \<Rightarrow> bool" where
  "is_word_char c =
     (let n = (of_char c :: nat)
      in (48 \<le> n \<and> n \<le> 57) \<or> (65 \<le> n \<and> n \<le> 90) \<or> (97 \<le> n \<and> n \<le> 122) \<or> n = 95)"

fun occurs :: "string \<Rightarrow> string \<Rightarrow> bool" where
  "occurs p [] = (p = [])"
| "occurs p (c # cs) = (take (length p) (c # cs) = p \<or> occurs p cs)"

definition literal_engine :: "string regexp_engine" where
  "literal_engine =
     \<lparr>compile = (\<lambda>pattern.
        if list_all is_word_char pattern then Inr pattern
        else Inl (ErrorObj (''Invalid regular expression: /'' @ pattern @ ''/''))),
      test = (\<lambda>regex value. occurs regex value),
      number_to_string = show_int\<rparr>"

text \<open>
  The lookup in the \<open>process.env\<close> of a process started with the variables \<open>vars\<close>, for
  the names used below (none is an array index): the string of a variable, and for a
  name that is no variable the member of \<open>Object.prototype\<close> of that name, if there is
  one, as the engine prints it.
\<close>

definition object_prototype :: "(string \<times> string) list" where
  "object_prototype =
     [(''constructor'', ''function Object() { [native code] }''),
      (''hasOwnProperty'', ''function hasOwnProperty() { [native code] }''),
      (''isPrototypeOf'', ''function isPrototypeOf() { [native code] }''),
      (''propertyIsEnumerable'', ''function propertyIsEnumerable() { [native code] }''),
      (''toLocaleString'', ''function toLocaleString() { [native code] }''),
      (''toString'', ''function toString() { [native code] }''),
      (''valueOf'', ''function valueOf() { [native code] }''),
      (''__proto__'', ''[object Object]'')]"

definition node_env :: "(string \<times> string) list \<Rightarrow> string \<Rightarrow> env_value option" where
  "node_env vars name =
     (case map_of vars name of
        Some v \<Rightarrow> Some (EnvString v)
      | None \<Rightarrow> map_option EnvObject (map_of object_prototype name))"

text \<open>
  A host whose input \<open>config-file\<close> is \<open>secrets.toml\<close>, resolved under \<open>/work\<close>, where
  the file exists when \<open>present\<close> holds and parses to \<open>doc\<close>, with the environment \<open>vars\<close>.
\<close>

definition sample_host :: "bool \<Rightarrow> toml \<Rightarrow> (string \<times> string) list \<Rightarrow> host" where
  "sample_host present doc vars =
     \<lparr>get_input = (\<lambda>name. Inr (if name = ''config-file'' then ''secrets.toml'' else [])),
      resolve_path = (\<lambda>p. ''/work/'' @ p),
      exists_sync = (\<lambda>p. present \<and> p = ''/work/secrets.toml''),
      read_file = (\<lambda>p. if present \<and> p = ''/work/secrets.toml'' then Inr ''(file)''
                        else Inl (ErrorObj ''ENOENT: no such file or directory'')),
      toml_parse = (\<lambda>content. Inr doc),
      process_env = node_env vars\<rparr>"

section \<open>Notions used to state the properties\<close>

text \<open>
  A rule fails when the lookup of its name gives \<open>undefined\<close> or the empty string (the
  value is missing), or when \<open>validateSecret\<close> returns \<open>false\<close> on its value and
  pattern. A rule whose pattern is no string and has no conversion to one fails too.
\<close>

definition rule_fails :: "'r regexp_engine \<Rightarrow> host \<Rightarrow> string \<times> toml \<Rightarrow> bool" where
  "rule_fails eng h rule =
     (case rule of (name, regex) \<Rightarrow>
        (case process_env h name of
           None \<Rightarrow> True
         | Some secretValue \<Rightarrow>
             \<not> env_truthy secretValue \<or>
             (case to_js_string (number_to_string eng) regex of
                Inl error \<Rightarrow> True
              | Inr pattern \<Rightarrow>
                  snd (validateSecret eng name (env_text secretValue) pattern) = Returns False)))"

text \<open>A pattern as a well-formed configuration has it: a string.\<close>

fun is_string :: "toml \<Rightarrow> bool" where
  "is_string (TStr s) = True"
| "is_string v = False"

fun is_set_failed :: "event \<Rightarrow> bool" where
  "is_set_failed (CoreSetFailed m) = True"
| "is_set_failed e = False"



section \<open>Facts about validateSecret\<close>

lemma validateSecret_compile_error:
  "compile eng pattern = Inl e \<Longrightarrow>
   validateSecret eng name value pattern = ([error_message name e], Returns False)"
  by (simp add: validateSecret_def validateSecret_try_def validateSecret_catch_def)

lemma validateSecret_match:
  "compile eng pattern = Inr regex \<Longrightarrow> test eng regex value \<Longrightarrow>
   validateSecret eng name value pattern = ([valid_message name], Returns True)"
  by (simp add: validateSecret_def validateSecret_try_def)

lemma validateSecret_mismatch:
  "compile eng pattern = Inr regex \<Longrightarrow> \<not> test eng regex value \<Longrightarrow>
   validateSecret eng name value pattern = ([mismatch_message name pattern], Returns False)"
  by (simp add: validateSecret_def validateSecret_try_def)

lemma validateSecret_returns:
  "\<exists>message b. validateSecret eng name value pattern = ([message], Returns b)"
proof (cases "compile eng pattern")
  case (Inl e)
  then show ?thesis by (auto simp add: validateSecret_compile_error)
next
  case (Inr regex)
  then show ?thesis
    by (cases "test eng regex value") (auto simp add: validateSecret_match validateSecret_mismatch)
qed

lemma messages_distinct:
  "mismatch_message name' pattern \<noteq> valid_message name"
  "error_message name' e \<noteq> valid_message name"
  by (simp_all add: valid_message_def mismatch_message_def error_message_def
      check_mark_def cross_mark_def warning_sign_def)

section \<open>Facts about the argument loop\<close>

lemma parse_args_name_absent:
  "''--name'' \<notin> set args \<Longrightarrow> fst (parse_args args acc) = fst acc"
  by (induction args acc rule: parse_args.induct) auto

lemma parse_args_value_absent:
  "''--value'' \<notin> set args \<Longrightarrow> fst (snd (parse_args args acc)) = fst (snd acc)"
  by (induction args acc rule: parse_args.induct) auto

lemma parse_args_regex_absent:
  "''--regex'' \<notin> set args \<Longrightarrow> snd (snd (parse_args args acc)) = snd (snd acc)"
  by (induction args acc rule: parse_args.induct) auto

lemma cli_main_missing:
  "parse_args args ([], [], []) = (name, value, regex) \<Longrightarrow>
   name = [] \<or> value = [] \<or> regex = [] \<Longrightarrow>
   cli_main eng args = \<lparr>stdout = [], stderr = [usage_message], validate_calls = [], exit_code = 1\<rparr>"
  by (auto simp add: cli_main_def)

lemma cli_main_complete:
  "parse_args args ([], [], []) = (name, value, regex) \<Longrightarrow>
   name \<noteq> [] \<Longrightarrow> value \<noteq> [] \<Longrightarrow> regex \<noteq> [] \<Longrightarrow>
   validateSecret eng name value regex = (out, Returns b) \<Longrightarrow>
   cli_main eng args =
     \<lparr>stdout = out, stderr = [], validate_calls = [(name, value, regex)],
      exit_code = (if b then 0 else 1)\<rparr>"
  by (simp add: cli_main_def)

lemma parse_args_canonical:
  "parse_args [''--name'', n, ''--value'', v, ''--regex'', r] acc = (n, v, r)"
  by (cases acc) simp

section \<open>Facts about run\<close>

lemma process_rule_missing:
  "process_env h name = None \<or> process_env h name = Some (EnvString []) \<Longrightarrow>
   process_rule eng h (name, regex) hasFailures = ([CoreWarning (not_found_warning name)], True)"
  by (auto simp add: process_rule_def)

lemma process_rule_unconvertible:
  "process_env h name = Some secretValue \<Longrightarrow> env_truthy secretValue \<Longrightarrow>
   to_js_string (number_to_string eng) regex = Inl error \<Longrightarrow>
   process_rule eng h (name, regex) hasFailures = ([CoreError (validation_failed_error name)], True)"
  by (simp add: process_rule_def)

lemma process_rule_present:
  "process_env h name = Some secretValue \<Longrightarrow> env_truthy secretValue \<Longrightarrow>
   to_js_string (number_to_string eng) regex = Inr pattern \<Longrightarrow>
   validateSecret eng name (env_text secretValue) pattern = ([message], Returns b) \<Longrightarrow>
   process_rule eng h (name, regex) hasFailures =
     ([CoreDebug (validating_debug name pattern),
       CallValidateSecret name (env_text secretValue) pattern,
       CoreInfo (trim (message @ [CHR 0x0A]))]
      @ (if b then [] else [CoreError (validation_failed_error name)]),
      \<not> b \<or> hasFailures)"
  by (simp add: process_rule_def)

lemma not_env_truthy: "\<not> env_truthy v \<longleftrightarrow> v = EnvString []"
  by (cases v) simp_all

lemma process_rule_cases:
  obtains (missing) name regex where "rule = (name, regex)"
      "process_env h name = None \<or> process_env h name = Some (EnvString [])"
  | (unconvertible) name regex secretValue error where "rule = (name, regex)"
      "process_env h name = Some secretValue" "env_truthy secretValue"
      "to_js_string (number_to_string eng) regex = Inl error"
  | (present) name regex secretValue pattern message b where "rule = (name, regex)"
      "process_env h name = Some secretValue" "env_truthy secretValue"
      "to_js_string (number_to_string eng) regex = Inr pattern"
      "validateSecret eng name (env_text secretValue) pattern = ([message], Returns b)"
proof (cases rule)
  case (Pair name regex)
  show ?thesis
  proof (cases "process_env h name")
    case None
    with Pair show ?thesis by (intro missing) auto
  next
    case (Some secretValue)
    show ?thesis
    proof (cases "env_truthy secretValue")
      case False
      with Pair Some show ?thesis by (intro missing) (auto simp add: not_env_truthy)
    next
      case True
      show ?thesis
      proof (cases "to_js_string (number_to_string eng) regex")
        case (Inl error)
        with Pair Some True show ?thesis by (intro unconvertible) auto
      next
        case (Inr pattern)
        obtain message b where
          "validateSecret eng name (env_text secretValue) pattern = ([message], Returns b)"
          using validateSecret_returns by blast
        with Pair Some True Inr show ?thesis by (intro present) auto
      qed
    qed
  qed
qed

lemma process_rule_flag:
  "snd (process_rule eng h rule hasFailures) = (hasFailures \<or> rule_fails eng h rule)"
proof (cases rule rule: process_rule_cases [where h = h and eng = eng])
  case (missing name regex)
  then show ?thesis
    by (auto simp add: process_rule_missing rule_fails_def)
next
  case (unconvertible name regex secretValue error)
  then show ?thesis
    by (simp add: process_rule_unconvertible rule_fails_def)
next
  case (present name regex secretValue pattern message b)
  then show ?thesis
    by (auto simp add: process_rule_present rule_fails_def)
qed

lemma process_rule_events:
  "fst (process_rule eng h rule hasFailures) = fst (process_rule eng h rule False)"
proof (cases rule rule: process_rule_cases [where h = h and eng = eng])
  case (missing name regex)
  then show ?thesis by (simp add: process_rule_missing)
next
  case (unconvertible name regex secretValue error)
  then show ?thesis by (simp add: process_rule_unconvertible)
next
  case (present name regex secretValue pattern message b)
  then show ?thesis by (simp add: process_rule_present)
qed

lemma process_rule_no_set_failed:
  "e \<in> set (fst (process_rule eng h rule hasFailures)) \<Longrightarrow> \<not> is_set_failed e"
proof (cases rule rule: process_rule_cases [where h = h and eng = eng])
  case (missing name regex)
  assume "e \<in> set (fst (process_rule eng h rule hasFailures))"
  with missing show ?thesis by (auto simp add: process_rule_missing)
next
  case (unconvertible name regex secretValue error)
  assume "e \<in> set (fst (process_rule eng h rule hasFailures))"
  with unconvertible show ?thesis by (auto simp add: process_rule_unconvertible)
next
  case (present name regex secretValue pattern message b)
  assume "e \<in> set (fst (process_rule eng h rule hasFailures))"
  with present show ?thesis by (auto simp add: process_rule_present split: if_splits)
qed


lemma run_rules_flag:
  "snd (run_rules eng h rules hasFailures) = (hasFailures \<or> (\<exists>rule \<in> set rules. rule_fails eng h rule))"
proof (induction rules arbitrary: hasFailures)
  case Nil
  show ?case by simp
next
  case (Cons rule rules)
  have "snd (run_rules eng h (rule # rules) hasFailures) =
        snd (run_rules eng h rules (snd (process_rule eng h rule hasFailures)))"
    by (simp split: prod.splits)
  then show ?case
    by (auto simp add: Cons.IH process_rule_flag)
qed

lemma run_rules_events:
  "fst (run_rules eng h rules hasFailures) =
   concat (map (\<lambda>rule. fst (process_rule eng h rule False)) rules)"
proof (induction rules arbitrary: hasFailures)
  case Nil
  show ?case by simp
next
  case (Cons rule rules)
  have "fst (run_rules eng h (rule # rules) hasFailures) =
        fst (process_rule eng h rule hasFailures)
        @ fst (run_rules eng h rules (snd (process_rule eng h rule hasFailures)))"
    by (simp split: prod.splits)
  then show ?case
    using process_rule_events [of eng h rule hasFailures] by (simp add: Cons.IH)
qed

lemma run_rules_no_set_failed:
  "filter is_set_failed (fst (run_rules eng h rules hasFailures)) = []"
  by (auto simp add: run_rules_events filter_empty_conv dest: process_rule_no_set_failed)



lemma rule_fails_string:
  "rule_fails eng h (name, TStr pattern) \<longleftrightarrow>
     process_env h name = None \<or> process_env h name = Some (EnvString [])
     \<or> (\<exists>secretValue. process_env h name = Some secretValue
          \<and> snd (validateSecret eng name (env_text secretValue) pattern) = Returns False)"
  by (auto simp add: rule_fails_def not_env_truthy split: option.splits)

lemma validate_all_eq:
  "validate_all eng h secrets =
     CoreInfo (''Found '' @ show_nat (length (object_entries secrets)) @ '' secrets to validate'')
     # fst (run_rules eng h (object_entries secrets) False)
     @ [if \<exists>rule \<in> set (object_entries secrets). rule_fails eng h rule
        then CoreSetFailed ''One or more secrets failed validation''
        else CoreInfo ''All secrets validated successfully'']"
proof -
  obtain evs hf where r: "run_rules eng h (object_entries secrets) False = (evs, hf)"
    by (cases "run_rules eng h (object_entries secrets) False") auto
  have "hf = (\<exists>rule \<in> set (object_entries secrets). rule_fails eng h rule)"
    using run_rules_flag [of eng h "object_entries secrets" False] r by simp
  with r show ?thesis by (simp add: validate_all_def)
qed

lemma get_secrets_truthy: "get_secrets doc = Some secrets \<Longrightarrow> truthy doc"
  by (cases doc) simp_all

lemma run_missing_file:
  "get_input h ''config-file'' = Inr p \<Longrightarrow> \<not> exists_sync h (resolve_path h p) \<Longrightarrow>
   run eng h =
     [CoreDebug (''Looking for TOML configuration at: '' @ resolve_path h p),
      CoreSetFailed (''TOML file not found at path: '' @ resolve_path h p)]"
  by (simp add: run_def run_try_def Let_def)

lemma run_invalid_format:
  "get_input h ''config-file'' = Inr p \<Longrightarrow> exists_sync h (resolve_path h p) \<Longrightarrow>
   read_file h (resolve_path h p) = Inr content \<Longrightarrow> toml_parse h content = Inr doc \<Longrightarrow>
   missing_secrets_section doc \<Longrightarrow>
   run eng h =
     [CoreDebug (''Looking for TOML configuration at: '' @ resolve_path h p),
      CoreSetFailed invalid_format_message]"
  by (simp add: run_def run_try_def Let_def)

lemma run_loaded:
  "get_input h ''config-file'' = Inr p \<Longrightarrow> exists_sync h (resolve_path h p) \<Longrightarrow>
   read_file h (resolve_path h p) = Inr content \<Longrightarrow> toml_parse h content = Inr doc \<Longrightarrow>
   get_secrets doc = Some secrets \<Longrightarrow> truthy secrets \<Longrightarrow>
   run eng h =
     CoreDebug (''Looking for TOML configuration at: '' @ resolve_path h p)
     # validate_all eng h secrets"
  by (simp add: run_def run_try_def Let_def missing_secrets_section_def get_secrets_truthy)

lemma run_fatal:
  assumes "get_input h ''config-file'' = Inr p"
    and "\<not> exists_sync h (resolve_path h p)
         \<or> (exists_sync h (resolve_path h p) \<and> read_file h (resolve_path h p) = Inr content
            \<and> toml_parse h content = Inr doc \<and> get_secrets doc = None)"
  shows "run eng (h\<lparr>process_env := env'\<rparr>) =
           [CoreDebug (''Looking for TOML configuration at: '' @ resolve_path h p),
            CoreSetFailed (if \<not> exists_sync h (resolve_path h p)
                           then ''TOML file not found at path: '' @ resolve_path h p
                           else invalid_format_message)]"
proof (cases "exists_sync h (resolve_path h p)")
  case False
  with assms(1) show ?thesis
    using run_missing_file [of "h\<lparr>process_env := env'\<rparr>" p eng] by simp
next
  case True
  with assms(2) have l: "read_file h (resolve_path h p) = Inr content"
    "toml_parse h content = Inr doc" "missing_secrets_section doc"
    by (simp_all add: missing_secrets_section_def)
  with assms(1) True show ?thesis
    using run_invalid_format [of "h\<lparr>process_env := env'\<rparr>" p content doc eng] by simp
qed

lemma sample_host_loads:
  "get_input (sample_host True doc vars) ''config-file'' = Inr ''secrets.toml''"
  "exists_sync (sample_host True doc vars) (resolve_path (sample_host True doc vars) ''secrets.toml'')"
  "read_file (sample_host True doc vars) (resolve_path (sample_host True doc vars) ''secrets.toml'')
     = Inr ''(file)''"
  "toml_parse (sample_host True doc vars) ''(file)'' = Inr doc"
  "process_env (sample_host True doc vars) = node_env vars"
  by (simp_all add: sample_host_def)

lemmas sample_rule_eval = rule_fails_def literal_engine_def is_word_char_def
  validateSecret_def validateSecret_try_def validateSecret_catch_def

section \<open>Properties of validateSecret\<close>

text \<open>
  C1. For every name, value and pattern, \<open>validateSecret\<close> returns \<open>true\<close> exactly when
  the pattern compiles and the test of the compiled expression on the value succeeds. The
  pattern and the value reach the engine unchanged, so nothing is anchored that the
  pattern does not anchor. When the pattern does not compile the function returns
  \<open>false\<close>, and on no input does it throw.
\<close>

theorem validateSecret_true_iff_pattern_matches:
  "(snd (validateSecret eng name value pattern) = Returns True \<longleftrightarrow>
      (\<exists>regex. compile eng pattern = Inr regex \<and> test eng regex value))
   \<and> (\<forall>e. compile eng pattern = Inl e \<longrightarrow>
          snd (validateSecret eng name value pattern) = Returns False)
   \<and> (\<exists>b. snd (validateSecret eng name value pattern) = Returns b)"
proof (cases "compile eng pattern")
  case (Inl e)
  then show ?thesis by (auto simp add: validateSecret_compile_error)
next
  case (Inr regex)
  then show ?thesis
    by (cases "test eng regex value") (auto simp add: validateSecret_match validateSecret_mismatch)
qed

theorem validateSecret_true_iff_pattern_matches_witness:
  "compile literal_engine ''(unclosed[parenthesis''
     = Inl (ErrorObj ''Invalid regular expression: /(unclosed[parenthesis/'')
   \<and> snd (validateSecret literal_engine ''B'' ''any'' ''(unclosed[parenthesis'') = Returns False
   \<and> snd (validateSecret literal_engine ''K'' ''xabcx'' ''abc'') = Returns True"
  using validateSecret_true_iff_pattern_matches [of literal_engine "''B''" "''any''" "''(unclosed[parenthesis''"]
    validateSecret_true_iff_pattern_matches [of literal_engine "''K''" "''xabcx''" "''abc''"]
  by (simp add: literal_engine_def is_word_char_def)

text \<open>
  C5. When the pattern does not compile, \<open>validateSecret\<close> catches what the constructor
  throws, returns \<open>false\<close> to its caller and writes the one line made of the warning
  sign, \<open>Error validating secret\<close>, the quoted name and the message of the failure.
\<close>

theorem validateSecret_compile_error_is_caught:
  "compile eng pattern = Inl e \<Longrightarrow>
   validateSecret eng name value pattern =
     ([warning_sign @ '' Error validating secret '' @ squote @ name @ squote @ '': '' @ describe_thrown e],
      Returns False)"
  by (simp add: validateSecret_compile_error error_message_def)

theorem validateSecret_compile_error_is_caught_witness:
  "compile literal_engine ''(unclosed[parenthesis''
     = Inl (ErrorObj ''Invalid regular expression: /(unclosed[parenthesis/'')
   \<and> validateSecret literal_engine ''B'' ''any'' ''(unclosed[parenthesis'' =
     ([warning_sign @ '' Error validating secret '' @ squote @ ''B'' @ squote @ '': ''
        @ ''Invalid regular expression: /(unclosed[parenthesis/''], Returns False)"
proof -
  have c: "compile literal_engine ''(unclosed[parenthesis''
     = Inl (ErrorObj ''Invalid regular expression: /(unclosed[parenthesis/'')"
    by (simp add: literal_engine_def is_word_char_def)
  show ?thesis
    using c validateSecret_compile_error_is_caught [OF c, of "''B''" "''any''"] by simp
qed

text \<open>
  C9. Whenever \<open>validateSecret\<close> returns \<open>true\<close>, the pattern compiled and the test
  succeeded, the only line written is the one that calls the secret valid, and neither a
  mismatch line nor an error line was written: \<open>true\<close> never comes with an error.
\<close>

theorem validateSecret_true_only_on_match:
  "snd (validateSecret eng name value pattern) = Returns True \<Longrightarrow>
   (\<exists>regex. compile eng pattern = Inr regex \<and> test eng regex value)
   \<and> fst (validateSecret eng name value pattern) = [valid_message name]
   \<and> (\<forall>name' pattern' e.
          mismatch_message name' pattern' \<notin> set (fst (validateSecret eng name value pattern))
          \<and> error_message name' e \<notin> set (fst (validateSecret eng name value pattern)))"
proof (cases "compile eng pattern")
  case (Inl e)
  assume "snd (validateSecret eng name value pattern) = Returns True"
  with Inl show ?thesis by (simp add: validateSecret_compile_error)
next
  case (Inr regex)
  assume t: "snd (validateSecret eng name value pattern) = Returns True"
  show ?thesis
  proof (cases "test eng regex value")
    case True
    with Inr show ?thesis
      by (simp add: validateSecret_match messages_distinct)
  next
    case False
    with Inr t show ?thesis by (simp add: validateSecret_mismatch)
  qed
qed

theorem validateSecret_true_only_on_match_witness:
  "snd (validateSecret literal_engine ''K'' ''ABCD1234'' ''CD12'') = Returns True
   \<and> compile literal_engine ''CD12'' = Inr ''CD12''
   \<and> test literal_engine ''CD12'' ''ABCD1234''
   \<and> fst (validateSecret literal_engine ''K'' ''ABCD1234'' ''CD12'') = [valid_message ''K'']"
proof -
  have t: "snd (validateSecret literal_engine ''K'' ''ABCD1234'' ''CD12'') = Returns True"
    by (simp add: validateSecret_def validateSecret_try_def literal_engine_def is_word_char_def)
  show ?thesis
    using t validateSecret_true_only_on_match [OF t]
    by (simp add: literal_engine_def is_word_char_def)
qed

section \<open>Properties of the command-line entry\<close>

text \<open>
  C7. Run from the command line with a name, a value and a pattern, the process exits
  with code 0 when \<open>validateSecret\<close> returns \<open>true\<close> and with code 1 when it returns
  \<open>false\<close>, which is what it returns on a pattern that does not compile. When one of
  \<open>--name\<close>, \<open>--value\<close> and \<open>--regex\<close> is absent, it exits with code 1 after writing
  to stderr the line that begins \<open>Missing required arguments. Usage:\<close> and ends with
  \<open>--name NAME --value VALUE --regex PATTERN\<close>, and \<open>validateSecret\<close> is not called.
\<close>

theorem cli_exit_codes:
  "(parse_args args ([], [], []) = (name, val, regex) \<and> name \<noteq> [] \<and> val \<noteq> [] \<and> regex \<noteq> [] \<longrightarrow>
      exit_code (cli_main eng args) =
        (if snd (validateSecret eng name val regex) = Returns True then 0 else 1)
      \<and> stderr (cli_main eng args) = []
      \<and> validate_calls (cli_main eng args) = [(name, val, regex)]
      \<and> ((\<exists>e. compile eng regex = Inl e) \<longrightarrow> exit_code (cli_main eng args) = 1))
   \<and> (n \<noteq> [] \<and> v \<noteq> [] \<and> r \<noteq> [] \<longrightarrow>
      exit_code (cli_main eng [''--name'', n, ''--value'', v, ''--regex'', r]) =
        (if snd (validateSecret eng n v r) = Returns True then 0 else 1))
   \<and> (''--name'' \<notin> set args \<or> ''--value'' \<notin> set args \<or> ''--regex'' \<notin> set args \<longrightarrow>
      exit_code (cli_main eng args) = 1
      \<and> stderr (cli_main eng args) = [usage_message]
      \<and> validate_calls (cli_main eng args) = [])
   \<and> take 34 usage_message = ''Missing required arguments. Usage:''
   \<and> drop 59 usage_message = ''--name NAME --value VALUE --regex PATTERN''"
proof (intro conjI impI)
  assume a: "parse_args args ([], [], []) = (name, val, regex) \<and> name \<noteq> [] \<and> val \<noteq> [] \<and> regex \<noteq> []"
  obtain message b where vs: "validateSecret eng name val regex = ([message], Returns b)"
    using validateSecret_returns by blast
  with a have c: "cli_main eng args =
     \<lparr>stdout = [message], stderr = [], validate_calls = [(name, val, regex)],
      exit_code = (if b then 0 else 1)\<rparr>"
    by (simp add: cli_main_complete)
  show "exit_code (cli_main eng args) =
        (if snd (validateSecret eng name val regex) = Returns True then 0 else 1)"
    using c vs by simp
  show "stderr (cli_main eng args) = []" using c by simp
  show "validate_calls (cli_main eng args) = [(name, val, regex)]" using c by simp
  assume "\<exists>e. compile eng regex = Inl e"
  then have "b = False" using vs by (auto simp add: validateSecret_compile_error)
  then show "exit_code (cli_main eng args) = 1" using c by simp
next
  assume a: "n \<noteq> [] \<and> v \<noteq> [] \<and> r \<noteq> []"
  obtain message b where vs: "validateSecret eng n v r = ([message], Returns b)"
    using validateSecret_returns by blast
  have "parse_args [''--name'', n, ''--value'', v, ''--regex'', r] ([], [], []) = (n, v, r)"
    by (rule parse_args_canonical)
  with a vs have "cli_main eng [''--name'', n, ''--value'', v, ''--regex'', r] =
     \<lparr>stdout = [message], stderr = [], validate_calls = [(n, v, r)],
      exit_code = (if b then 0 else 1)\<rparr>"
    by (simp add: cli_main_complete)
  then show "exit_code (cli_main eng [''--name'', n, ''--value'', v, ''--regex'', r]) =
        (if snd (validateSecret eng n v r) = Returns True then 0 else 1)"
    using vs by simp
next
  assume absent: "''--name'' \<notin> set args \<or> ''--value'' \<notin> set args \<or> ''--regex'' \<notin> set args"
  obtain name' value' regex' where p: "parse_args args ([], [], []) = (name', value', regex')"
    by (cases "parse_args args ([], [], [])") auto
  have "name' = [] \<or> value' = [] \<or> regex' = []"
    using absent p parse_args_name_absent [of args "([], [], [])"]
      parse_args_value_absent [of args "([], [], [])"]
      parse_args_regex_absent [of args "([], [], [])"]
    by auto
  then have c: "cli_main eng args =
      \<lparr>stdout = [], stderr = [usage_message], validate_calls = [], exit_code = 1\<rparr>"
    using p by (rule cli_main_missing [rotated])
  show "exit_code (cli_main eng args) = 1" using c by simp
  show "stderr (cli_main eng args) = [usage_message]" using c by simp
  show "validate_calls (cli_main eng args) = []" using c by simp
next
  show "take 34 usage_message = ''Missing required arguments. Usage:''"
    by (simp add: usage_message_def)
  show "drop 59 usage_message = ''--name NAME --value VALUE --regex PATTERN''"
    by (simp add: usage_message_def)
qed

theorem cli_exit_codes_witness:
  "parse_args [''--name'', ''K'', ''--value'', ''ABCD1234'', ''--regex'', ''CD12''] ([], [], [])
     = (''K'', ''ABCD1234'', ''CD12'')
   \<and> exit_code (cli_main literal_engine
        [''--name'', ''K'', ''--value'', ''ABCD1234'', ''--regex'', ''CD12'']) = 0
   \<and> exit_code (cli_main literal_engine
        [''--name'', ''K'', ''--value'', ''short'', ''--regex'', ''CD12'']) = 1
   \<and> compile literal_engine ''['' = Inl (ErrorObj ''Invalid regular expression: /[/'')
   \<and> exit_code (cli_main literal_engine
        [''--name'', ''K'', ''--value'', ''test'', ''--regex'', ''['']) = 1
   \<and> ''--value'' \<notin> set [''--name'', ''K'']
   \<and> exit_code (cli_main literal_engine [''--name'', ''K'']) = 1
   \<and> stderr (cli_main literal_engine [''--name'', ''K'']) = [usage_message]"
  using
    cli_exit_codes [where eng = literal_engine
      and args = "[''--name'', ''K'', ''--value'', ''ABCD1234'', ''--regex'', ''CD12'']"
      and name = "''K''" and val = "''ABCD1234''" and regex = "''CD12''"
      and n = "''K''" and v = "''short''" and r = "''CD12''"]
    cli_exit_codes [where eng = literal_engine
      and args = "[''--name'', ''K'', ''--value'', ''test'', ''--regex'', ''['']"
      and name = "''K''" and val = "''test''" and regex = "''[''"
      and n = "''K''" and v = "''short''" and r = "''CD12''"]
    cli_exit_codes [where eng = literal_engine
      and args = "[''--name'', ''K'']"
      and name = "''K''" and val = "[]" and regex = "[]"
      and n = "''K''" and v = "''short''" and r = "''CD12''"]
  by (simp add: validateSecret_def validateSecret_try_def validateSecret_catch_def
      literal_engine_def is_word_char_def)

text \<open>
  C10. An argument given with the empty string as its value counts as absent: the
  process writes the usage line to stderr and exits with code 1 without calling
  \<open>validateSecret\<close>, as it does with no arguments at all, and as it does when the flag
  with the empty value is left out.
\<close>

theorem cli_empty_argument_counts_as_missing:
  "name = [] \<or> value = [] \<or> regex = [] \<Longrightarrow>
   cli_main eng [''--name'', name, ''--value'', value, ''--regex'', regex] =
     \<lparr>stdout = [], stderr = [usage_message], validate_calls = [], exit_code = 1\<rparr>
   \<and> cli_main eng [''--name'', name, ''--value'', value, ''--regex'', regex] = cli_main eng []
   \<and> (value = [] \<longrightarrow>
        cli_main eng [''--name'', name, ''--value'', value, ''--regex'', regex] =
        cli_main eng [''--name'', name, ''--regex'', regex])"
  by (auto simp add: cli_main_def)

theorem cli_empty_argument_counts_as_missing_witness:
  "([] :: string) = []
   \<and> cli_main literal_engine [''--name'', ''K'', ''--value'', [], ''--regex'', ''CD12''] =
     \<lparr>stdout = [], stderr = [usage_message], validate_calls = [], exit_code = 1\<rparr>
   \<and> cli_main literal_engine [''--name'', ''K'', ''--value'', [], ''--regex'', ''CD12''] =
     cli_main literal_engine [''--name'', ''K'', ''--regex'', ''CD12'']"
proof -
  have h: "''K'' = [] \<or> ([] :: string) = [] \<or> ''CD12'' = []"
    by simp
  from cli_empty_argument_counts_as_missing [OF h, where eng = literal_engine]
  show ?thesis by blast
qed

section \<open>Properties of run\<close>

text \<open>
  C2. Once a well-formed configuration is loaded (its \<open>secrets\<close> entry is a table whose
  patterns are strings) and every rule has been processed, \<open>run\<close> calls \<open>setFailed\<close> with
  \<open>One or more secrets failed validation\<close> exactly when some rule failed; it is then
  the only call of \<open>setFailed\<close> and the last report. When no rule failed, the last
  report is the info \<open>All secrets validated successfully\<close> and \<open>setFailed\<close> is never
  called. A rule fails exactly when its value is missing, that is when
  \<open>process.env[name]\<close> is \<open>undefined\<close> or the empty string, or when \<open>validateSecret\<close>
  returns \<open>false\<close> on what the lookup gave.
\<close>

theorem run_fails_iff_some_rule_fails:
  assumes "get_input h ''config-file'' = Inr p"
    and "exists_sync h (resolve_path h p)"
    and "read_file h (resolve_path h p) = Inr content"
    and "toml_parse h content = Inr doc"
    and "get_secrets doc = Some (TTable rules)"
    and "\<forall>rule \<in> set rules. is_string (snd rule)"
  shows "(CoreSetFailed ''One or more secrets failed validation'' \<in> set (run eng h)
            \<longleftrightarrow> (\<exists>rule \<in> set rules. rule_fails eng h rule))
     \<and> ((\<exists>rule \<in> set rules. rule_fails eng h rule) \<longrightarrow>
          filter is_set_failed (run eng h) = [CoreSetFailed ''One or more secrets failed validation'']
          \<and> last (run eng h) = CoreSetFailed ''One or more secrets failed validation'')
     \<and> (\<not> (\<exists>rule \<in> set rules. rule_fails eng h rule) \<longrightarrow>
          last (run eng h) = CoreInfo ''All secrets validated successfully''
          \<and> filter is_set_failed (run eng h) = [])
     \<and> (\<forall>name pattern. rule_fails eng h (name, TStr pattern) \<longleftrightarrow>
          process_env h name = None \<or> process_env h name = Some (EnvString [])
          \<or> (\<exists>secretValue. process_env h name = Some secretValue
               \<and> snd (validateSecret eng name (env_text secretValue) pattern) = Returns False))"
proof -
  let ?fails = "\<exists>rule \<in> set rules. rule_fails eng h rule"
  let ?evs = "fst (run_rules eng h rules False)"
  have r: "run eng h =
      CoreDebug (''Looking for TOML configuration at: '' @ resolve_path h p)
      # CoreInfo (''Found '' @ show_nat (length rules) @ '' secrets to validate'')
      # ?evs
      @ [if ?fails then CoreSetFailed ''One or more secrets failed validation''
         else CoreInfo ''All secrets validated successfully'']"
    using assms(1-5) run_loaded [of h p content doc "TTable rules" eng]
    by (simp add: validate_all_eq)
  have quiet: "filter is_set_failed ?evs = []"
    by (rule run_rules_no_set_failed)
  have f: "filter is_set_failed (run eng h) =
      (if ?fails then [CoreSetFailed ''One or more secrets failed validation''] else [])"
    by (simp add: r quiet)
  have l: "last (run eng h) =
      (if ?fails then CoreSetFailed ''One or more secrets failed validation''
       else CoreInfo ''All secrets validated successfully'')"
    by (simp add: r)
  have m: "CoreSetFailed ''One or more secrets failed validation'' \<in> set (run eng h) \<longleftrightarrow> ?fails"
  proof
    assume "CoreSetFailed ''One or more secrets failed validation'' \<in> set (run eng h)"
    then have "CoreSetFailed ''One or more secrets failed validation''
        \<in> set (filter is_set_failed (run eng h))"
      by simp
    then show ?fails by (simp add: f split: if_splits)
  next
    assume ?fails
    then show "CoreSetFailed ''One or more secrets failed validation'' \<in> set (run eng h)"
      by (simp add: r)
  qed
  show ?thesis using f l m rule_fails_string [of eng h] by simp
qed

theorem run_fails_iff_some_rule_fails_witness:
  "get_secrets (TTable [(''secrets'', TTable [(''API_KEY'', TStr ''CD12''), (''MISSING_SECRET'', TStr ''abc'')])])
     = Some (TTable [(''API_KEY'', TStr ''CD12''), (''MISSING_SECRET'', TStr ''abc'')])
   \<and> is_string (TStr ''CD12'') \<and> is_string (TStr ''abc'')
   \<and> last (run literal_engine (sample_host True
        (TTable [(''secrets'', TTable [(''API_KEY'', TStr ''CD12''), (''MISSING_SECRET'', TStr ''abc'')])])
        [(''API_KEY'', ''ABCD1234'')]))
       = CoreSetFailed ''One or more secrets failed validation''
   \<and> last (run literal_engine (sample_host True
        (TTable [(''secrets'', TTable [(''API_KEY'', TStr ''CD12'')])])
        [(''API_KEY'', ''ABCD1234'')]))
       = CoreInfo ''All secrets validated successfully''
   \<and> filter is_set_failed (run literal_engine (sample_host True
        (TTable [(''secrets'', TTable [(''API_KEY'', TStr ''CD12'')])])
        [(''API_KEY'', ''ABCD1234'')])) = []
   \<and> last (run literal_engine (sample_host True
        (TTable [(''secrets'', TTable [(''toString'', TStr ''native'')])]) []))
       = CoreInfo ''All secrets validated successfully''"
proof -
  let ?two = "[(''API_KEY'', TStr ''CD12''), (''MISSING_SECRET'', TStr ''abc'')]"
  let ?one = "[(''API_KEY'', TStr ''CD12'')]"
  let ?inh = "[(''toString'', TStr ''native'')]"
  let ?h2 = "sample_host True (TTable [(''secrets'', TTable ?two)]) [(''API_KEY'', ''ABCD1234'')]"
  let ?h1 = "sample_host True (TTable [(''secrets'', TTable ?one)]) [(''API_KEY'', ''ABCD1234'')]"
  let ?h0 = "sample_host True (TTable [(''secrets'', TTable ?inh)]) []"
  have g2: "get_secrets (TTable [(''secrets'', TTable ?two)]) = Some (TTable ?two)" by simp
  have g1: "get_secrets (TTable [(''secrets'', TTable ?one)]) = Some (TTable ?one)" by simp
  have g0: "get_secrets (TTable [(''secrets'', TTable ?inh)]) = Some (TTable ?inh)" by simp
  have s2: "\<forall>rule \<in> set ?two. is_string (snd rule)" by simp
  have s1: "\<forall>rule \<in> set ?one. is_string (snd rule)" by simp
  have s0: "\<forall>rule \<in> set ?inh. is_string (snd rule)" by simp
  have f2: "\<exists>rule \<in> set ?two. rule_fails literal_engine ?h2 rule"
    by (simp add: sample_rule_eval sample_host_loads node_env_def object_prototype_def)
  have f1: "\<not> (\<exists>rule \<in> set ?one. rule_fails literal_engine ?h1 rule)"
    by (simp add: sample_rule_eval sample_host_loads node_env_def object_prototype_def)
  have f0: "\<not> (\<exists>rule \<in> set ?inh. rule_fails literal_engine ?h0 rule)"
    by (simp add: sample_rule_eval sample_host_loads node_env_def object_prototype_def)
  from run_fails_iff_some_rule_fails
      [OF sample_host_loads(1-4) g2 s2, where eng = literal_engine]
    run_fails_iff_some_rule_fails
      [OF sample_host_loads(1-4) g1 s1, where eng = literal_engine]
    run_fails_iff_some_rule_fails
      [OF sample_host_loads(1-4) g0 s0, where eng = literal_engine]
    f2 f1 f0 g2
  show ?thesis by simp blast
qed




text \<open>
  C4, as stated: a \<open>secrets\<close> entry that is present but is no mapping from strings to
  strings makes the run abort with a failure. With \<open>secrets = true\<close> the run reports
  success, and with a number as a pattern the rule is evaluated and passes.
\<close>

theorem unchecked_shape_counterexample:
  "get_secrets (TTable [(''secrets'', TBool True)]) = Some (TBool True)
   \<and> run literal_engine (sample_host True (TTable [(''secrets'', TBool True)]) []) =
     [CoreDebug ''Looking for TOML configuration at: /work/secrets.toml'',
      CoreInfo ''Found 0 secrets to validate'',
      CoreInfo ''All secrets validated successfully'']
   \<and> get_secrets (TTable [(''secrets'', TTable [(''PIN'', TInt 1234)])])
       = Some (TTable [(''PIN'', TInt 1234)])
   \<and> run literal_engine
        (sample_host True (TTable [(''secrets'', TTable [(''PIN'', TInt 1234)])]) [(''PIN'', ''1234'')]) =
     [CoreDebug ''Looking for TOML configuration at: /work/secrets.toml'',
      CoreInfo ''Found 1 secrets to validate'',
      CoreDebug ''Validating secret: PIN with pattern: 1234'',
      CallValidateSecret ''PIN'' ''1234'' ''1234'',
      CoreInfo (check_mark @ '' Secret '' @ squote @ ''PIN'' @ squote @ '' is valid.''),
      CoreInfo ''All secrets validated successfully'']"
  by code_simp

text \<open>
  C4, amended. With the file read and parsed, \<open>run\<close> aborts with the one failure
  \<open>Invalid configuration file format. Missing "secrets" section.\<close>, before any rule,
  when the document has no \<open>secrets\<close> entry or a falsy one (the empty string, zero,
  \<open>false\<close>). A \<open>secrets\<close> entry that is present and truthy is accepted whatever its
  shape: the run goes on to its entries and never reports the invalid format.
\<close>

theorem invalid_format_iff_secrets_missing_or_falsy:
  assumes "get_input h ''config-file'' = Inr p"
    and "exists_sync h (resolve_path h p)"
    and "read_file h (resolve_path h p) = Inr content"
    and "toml_parse h content = Inr doc"
  shows "(get_secrets doc = None \<or> (\<exists>secrets. get_secrets doc = Some secrets \<and> \<not> truthy secrets) \<longrightarrow>
          run eng h =
            [CoreDebug (''Looking for TOML configuration at: '' @ resolve_path h p),
             CoreSetFailed invalid_format_message])
     \<and> (\<forall>secrets. get_secrets doc = Some secrets \<and> truthy secrets \<longrightarrow>
          run eng h =
            CoreDebug (''Looking for TOML configuration at: '' @ resolve_path h p)
            # validate_all eng h secrets
          \<and> CoreSetFailed invalid_format_message \<notin> set (run eng h))"
proof (intro conjI impI allI)
  assume "get_secrets doc = None \<or> (\<exists>secrets. get_secrets doc = Some secrets \<and> \<not> truthy secrets)"
  then have "missing_secrets_section doc"
    by (auto simp add: missing_secrets_section_def)
  with assms show "run eng h =
            [CoreDebug (''Looking for TOML configuration at: '' @ resolve_path h p),
             CoreSetFailed invalid_format_message]"
    by (simp add: run_invalid_format)
next
  fix secrets
  assume s: "get_secrets doc = Some secrets \<and> truthy secrets"
  with assms show r: "run eng h =
            CoreDebug (''Looking for TOML configuration at: '' @ resolve_path h p)
            # validate_all eng h secrets"
    by (simp add: run_loaded)
  have "filter is_set_failed (run eng h) =
      (if \<exists>rule \<in> set (object_entries secrets). rule_fails eng h rule
       then [CoreSetFailed ''One or more secrets failed validation''] else [])"
    by (simp add: r validate_all_eq run_rules_no_set_failed)
  moreover have "invalid_format_message \<noteq> ''One or more secrets failed validation''"
    by (simp add: invalid_format_message_def)
  ultimately have "CoreSetFailed invalid_format_message \<notin> set (filter is_set_failed (run eng h))"
    by (simp split: if_splits)
  then show "CoreSetFailed invalid_format_message \<notin> set (run eng h)"
    by simp
qed

theorem invalid_format_iff_secrets_missing_or_falsy_witness:
  "get_secrets (TTable [(''wrong-section'', TTable [(''API_KEY'', TStr ''CD12'')])]) = None
   \<and> run literal_engine (sample_host True
        (TTable [(''wrong-section'', TTable [(''API_KEY'', TStr ''CD12'')])]) []) =
      [CoreDebug (''Looking for TOML configuration at: '' @ ''/work/secrets.toml''),
       CoreSetFailed invalid_format_message]
   \<and> get_secrets (TTable [(''secrets'', TStr [])]) = Some (TStr []) \<and> \<not> truthy (TStr [])
   \<and> run literal_engine (sample_host True (TTable [(''secrets'', TStr [])]) []) =
      [CoreDebug (''Looking for TOML configuration at: '' @ ''/work/secrets.toml''),
       CoreSetFailed invalid_format_message]
   \<and> get_secrets (TTable [(''secrets'', TBool True)]) = Some (TBool True) \<and> truthy (TBool True)
   \<and> CoreSetFailed invalid_format_message
       \<notin> set (run literal_engine (sample_host True (TTable [(''secrets'', TBool True)]) []))"
proof -
  have r: "resolve_path (sample_host True doc vars) ''secrets.toml'' = ''/work/secrets.toml''"
    for doc vars
    by (simp add: sample_host_def)
  have g1: "get_secrets (TTable [(''wrong-section'', TTable [(''API_KEY'', TStr ''CD12'')])]) = None"
    by simp
  have g2: "get_secrets (TTable [(''secrets'', TStr [])]) = Some (TStr []) \<and> \<not> truthy (TStr [])"
    by simp
  have g3: "get_secrets (TTable [(''secrets'', TBool True)]) = Some (TBool True) \<and> truthy (TBool True)"
    by simp
  from invalid_format_iff_secrets_missing_or_falsy
      [OF sample_host_loads(1-4) [of "TTable [(''wrong-section'', TTable [(''API_KEY'', TStr ''CD12'')])]" "[]"],
        where eng = literal_engine]
    invalid_format_iff_secrets_missing_or_falsy
      [OF sample_host_loads(1-4) [of "TTable [(''secrets'', TStr [])]" "[]"],
        where eng = literal_engine]
    invalid_format_iff_secrets_missing_or_falsy
      [OF sample_host_loads(1-4) [of "TTable [(''secrets'', TBool True)]" "[]"],
        where eng = literal_engine]
    g1 g2 g3
  show ?thesis unfolding r by blast
qed

text \<open>
  C6. When the configuration file does not exist at the resolved path, or exists and
  parses to a document without a \<open>secrets\<close> entry, \<open>run\<close> makes exactly two reports:
  the debug line with the path and one \<open>setFailed\<close>. No rule is processed: there is no
  warning, error or info, no call of \<open>validateSecret\<close>, and the outcome is the same for
  every engine and every environment.
\<close>

theorem fatal_configuration_errors_skip_all_rules:
  assumes "get_input h ''config-file'' = Inr p"
    and "\<not> exists_sync h (resolve_path h p)
         \<or> (exists_sync h (resolve_path h p) \<and> read_file h (resolve_path h p) = Inr content
            \<and> toml_parse h content = Inr doc \<and> get_secrets doc = None)"
  shows "run eng h =
           [CoreDebug (''Looking for TOML configuration at: '' @ resolve_path h p),
            CoreSetFailed (if \<not> exists_sync h (resolve_path h p)
                           then ''TOML file not found at path: '' @ resolve_path h p
                           else invalid_format_message)]
     \<and> length (filter is_set_failed (run eng h)) = 1
     \<and> (\<forall>eng' env'. run eng' (h\<lparr>process_env := env'\<rparr>) = run eng h)"
proof -
  have a: "run eng h =
           [CoreDebug (''Looking for TOML configuration at: '' @ resolve_path h p),
            CoreSetFailed (if \<not> exists_sync h (resolve_path h p)
                           then ''TOML file not found at path: '' @ resolve_path h p
                           else invalid_format_message)]"
    using run_fatal [OF assms, of eng "process_env h"] by simp
  have b: "length (filter is_set_failed (run eng h)) = 1"
    by (simp add: a)
  have c: "run eng' (h\<lparr>process_env := env'\<rparr>) = run eng h" for eng' :: "'b regexp_engine" and env'
    using run_fatal [OF assms, of eng' env'] by (simp add: a)
  show ?thesis
    using a b c by blast
qed

theorem fatal_configuration_errors_skip_all_rules_witness:
  "get_input (sample_host False (TTable []) []) ''config-file'' = Inr ''secrets.toml''
   \<and> \<not> exists_sync (sample_host False (TTable []) []) ''/work/secrets.toml''
   \<and> run literal_engine (sample_host False (TTable []) []) =
      [CoreDebug ''Looking for TOML configuration at: /work/secrets.toml'',
       CoreSetFailed ''TOML file not found at path: /work/secrets.toml'']
   \<and> get_secrets (TTable [(''wrong-section'', TTable [(''API_KEY'', TStr ''CD12'')])]) = None
   \<and> run literal_engine (sample_host True
        (TTable [(''wrong-section'', TTable [(''API_KEY'', TStr ''CD12'')])]) [(''API_KEY'', ''ABCD1234'')]) =
      [CoreDebug ''Looking for TOML configuration at: /work/secrets.toml'',
       CoreSetFailed invalid_format_message]"
proof -
  let ?h0 = "sample_host False (TTable []) []"
  let ?doc = "TTable [(''wrong-section'', TTable [(''API_KEY'', TStr ''CD12'')])]"
  let ?h1 = "sample_host True ?doc [(''API_KEY'', ''ABCD1234'')]"
  have i0: "get_input ?h0 ''config-file'' = Inr ''secrets.toml''"
    by (simp add: sample_host_def)
  have r0: "resolve_path ?h0 ''secrets.toml'' = ''/work/secrets.toml''"
    by (simp add: sample_host_def)
  have x0: "\<not> exists_sync ?h0 (resolve_path ?h0 ''secrets.toml'')"
    by (simp add: sample_host_def)
  then have c0: "\<not> exists_sync ?h0 (resolve_path ?h0 ''secrets.toml'')
         \<or> (exists_sync ?h0 (resolve_path ?h0 ''secrets.toml'')
            \<and> read_file ?h0 (resolve_path ?h0 ''secrets.toml'') = Inr content
            \<and> toml_parse ?h0 content = Inr doc \<and> get_secrets doc = None)" for content doc
    by simp
  have r1: "resolve_path ?h1 ''secrets.toml'' = ''/work/secrets.toml''"
    by (simp add: sample_host_def)
  have g1: "get_secrets ?doc = None" by simp
  have c1: "\<not> exists_sync ?h1 (resolve_path ?h1 ''secrets.toml'')
         \<or> (exists_sync ?h1 (resolve_path ?h1 ''secrets.toml'')
            \<and> read_file ?h1 (resolve_path ?h1 ''secrets.toml'') = Inr ''(file)''
            \<and> toml_parse ?h1 ''(file)'' = Inr ?doc \<and> get_secrets ?doc = None)"
    using sample_host_loads(2-4) [of ?doc "[(''API_KEY'', ''ABCD1234'')]"] g1 by simp
  have a0: "run literal_engine ?h0 =
      [CoreDebug ''Looking for TOML configuration at: /work/secrets.toml'',
       CoreSetFailed ''TOML file not found at path: /work/secrets.toml'']"
    using fatal_configuration_errors_skip_all_rules [OF i0 c0, where eng = literal_engine, THEN conjunct1]
      x0
    by (simp add: r0)
  have a1: "run literal_engine ?h1 =
      [CoreDebug ''Looking for TOML configuration at: /work/secrets.toml'',
       CoreSetFailed invalid_format_message]"
    using fatal_configuration_errors_skip_all_rules
        [OF sample_host_loads(1) c1, where eng = literal_engine, THEN conjunct1]
      sample_host_loads(2) [of ?doc "[(''API_KEY'', ''ABCD1234'')]"]
    by (simp add: r1)
  show ?thesis
    using i0 x0 a0 a1 g1 by (simp add: r0)
qed

text \<open>
  C8. For every configuration and environment, the overall outcome of \<open>run\<close> (the calls
  of \<open>setFailed\<close> and the last report, which is either the overall failure or the
  overall success) is the same for every order of the rules.
\<close>

theorem aggregate_outcome_order_independent:
  assumes "get_input h ''config-file'' = Inr p"
    and "exists_sync h (resolve_path h p)"
    and "read_file h (resolve_path h p) = Inr content"
    and "toml_parse h content = Inr doc"
    and "get_secrets doc = Some (TTable rules)"
    and "get_input h' ''config-file'' = Inr p'"
    and "exists_sync h' (resolve_path h' p')"
    and "read_file h' (resolve_path h' p') = Inr content'"
    and "toml_parse h' content' = Inr doc'"
    and "get_secrets doc' = Some (TTable rules')"
    and "process_env h' = process_env h"
    and "mset rules' = mset rules"
  shows "filter is_set_failed (run eng h') = filter is_set_failed (run eng h)
     \<and> last (run eng h') = last (run eng h)
     \<and> last (validate_all eng h (TTable rules')) = last (validate_all eng h (TTable rules))"
proof -
  have s: "set rules' = set rules"
    using assms(12) by (rule mset_eq_setD)
  have e: "rule_fails eng h' rule = rule_fails eng h rule" for rule
    by (simp add: rule_fails_def assms(11))
  have r: "run eng h =
      CoreDebug (''Looking for TOML configuration at: '' @ resolve_path h p)
      # validate_all eng h (TTable rules)"
    using assms(1-5) by (simp add: run_loaded)
  have r': "run eng h' =
      CoreDebug (''Looking for TOML configuration at: '' @ resolve_path h' p')
      # validate_all eng h' (TTable rules')"
    using assms(6-10) by (simp add: run_loaded)
  show ?thesis
    by (simp add: r r' validate_all_eq run_rules_no_set_failed s e)
qed

theorem aggregate_outcome_order_independent_witness:
  "mset [(''MISSING_SECRET'', TStr ''abc''), (''API_KEY'', TStr ''CD12'')]
     = mset [(''API_KEY'', TStr ''CD12''), (''MISSING_SECRET'', TStr ''abc'')]
   \<and> last (run literal_engine (sample_host True
        (TTable [(''secrets'', TTable [(''MISSING_SECRET'', TStr ''abc''), (''API_KEY'', TStr ''CD12'')])])
        [(''API_KEY'', ''ABCD1234'')]))
     = last (run literal_engine (sample_host True
        (TTable [(''secrets'', TTable [(''API_KEY'', TStr ''CD12''), (''MISSING_SECRET'', TStr ''abc'')])])
        [(''API_KEY'', ''ABCD1234'')]))"
proof -
  let ?a = "[(''API_KEY'', TStr ''CD12''), (''MISSING_SECRET'', TStr ''abc'')]"
  let ?b = "[(''MISSING_SECRET'', TStr ''abc''), (''API_KEY'', TStr ''CD12'')]"
  have ga: "get_secrets (TTable [(''secrets'', TTable ?a)]) = Some (TTable ?a)" by simp
  have gb: "get_secrets (TTable [(''secrets'', TTable ?b)]) = Some (TTable ?b)" by simp
  have m: "mset ?b = mset ?a" by (simp add: add.commute)
  have e: "process_env (sample_host True (TTable [(''secrets'', TTable ?b)]) [(''API_KEY'', ''ABCD1234'')])
      = process_env (sample_host True (TTable [(''secrets'', TTable ?a)]) [(''API_KEY'', ''ABCD1234'')])"
    by (simp add: sample_host_def)
  from aggregate_outcome_order_independent
    [OF sample_host_loads(1-4) ga sample_host_loads(1-4) gb e m, where eng = literal_engine] m
  show ?thesis by blast
qed

end
